theory Spec2Isabelle
  imports Main "HOL-Library.DAList"
begin

section \<open>The API router of \<^verbatim>\<open>wagtail/api/v2/router.py\<close>\<close>

text \<open>
  The module holds one class, \<^verbatim>\<open>WagtailAPIRouter\<close>: a registry of endpoint classes by
  name, an index from model classes to their default endpoint, reverse lookup of URL paths
  through that index, and the assembly of the URL patterns of all endpoints.

  A method that reads the router's fields is embedded as a function that takes the fields
  and returns the method's result together with the fields as the method leaves them, so
  that what a method writes (or does not write) is part of its definition;
  \<^verbatim>\<open>register_endpoint\<close>, which returns nothing, gives the fields alone.
\<close>

subsection \<open>Python classes used as models\<close>

text \<open>
  A model is a Python class. The router reads one attribute of it, \<^verbatim>\<open>__mro__\<close>, the
  tuple of the class itself followed by its ancestors, most derived first. A class is
  represented by its name (standing for the identity of the class object) and the part of
  \<^verbatim>\<open>__mro__\<close> after the class itself.
\<close>

datatype pyclass = PyClass string "pyclass list"

fun mro_tail :: "pyclass \<Rightarrow> pyclass list" where
  "mro_tail (PyClass n ancs) = ancs"

definition mro :: "pyclass \<Rightarrow> pyclass list" where
  "mro c = c # mro_tail c"

subsection \<open>Requests, views and URL patterns\<close>

text \<open>
  A router object is shared by reference: \<^verbatim>\<open>wrap_view\<close> stores \<^verbatim>\<open>self\<close> in the
  request. The reference is an address; the attribute \<^verbatim>\<open>wagtailapi_router\<close> of a
  request is \<open>None\<close> while it has not been set.
\<close>

type_synonym ref = nat

record request =
  path_info :: string
  wagtailapi_router :: "ref option"

type_synonym 'a view = "request \<Rightarrow> 'a"

text \<open>
  Django's two kinds of entries of a URL configuration: a pattern with a view as its
  callback, and a resolver that includes a nested list of entries under an application
  name and a namespace. \<open>URLPattern rx cb\<close> has the regular expression \<open>rx\<close> and the
  callback \<open>cb\<close>; \<open>URLResolver rx ps app ns\<close> has the regular expression \<open>rx\<close>, the
  included entries \<open>ps\<close>, the application name \<open>app\<close> and the namespace \<open>ns\<close>.
\<close>

datatype 'a urlpattern =
    URLPattern string "request \<Rightarrow> 'a"
  | URLResolver string "'a urlpattern list" string string

text \<open>
  Django's \<^verbatim>\<open>include((patterns, app_name), namespace=ns)\<close> returns the triple of the
  patterns, the application name and the namespace; \<^verbatim>\<open>re_path(regex, triple)\<close> builds
  the resolver from it.
\<close>

definition url_include :: "'a urlpattern list \<times> string \<Rightarrow> string
    \<Rightarrow> 'a urlpattern list \<times> string \<times> string" where
  "url_include arg ns = (fst arg, snd arg, ns)"

definition re_path :: "string \<Rightarrow> 'a urlpattern list \<times> string \<times> string \<Rightarrow> 'a urlpattern" where
  "re_path rx inc = URLResolver rx (fst inc) (fst (snd inc)) (snd (snd inc))"

subsection \<open>Endpoint classes\<close>

text \<open>
  An endpoint class is what \<^verbatim>\<open>register_endpoint\<close> receives as \<^verbatim>\<open>class_\<close>. The
  router uses its attribute \<^verbatim>\<open>model\<close> (a model class or \<^verbatim>\<open>None\<close>) and three class
  methods: \<^verbatim>\<open>get_urlpatterns()\<close>, \<^verbatim>\<open>get_model_listing_urlpath(model, namespace)\<close>
  and \<^verbatim>\<open>get_object_detail_urlpath(model, pk, namespace)\<close>. The two path builders
  return a string or \<^verbatim>\<open>None\<close>, or raise.
\<close>

datatype exn = Exception string

record ('pk, 'a) endpoint_class =
  endpoint_cls_name :: string
  model :: "pyclass option"
  cls_get_urlpatterns :: "'a urlpattern list"
  cls_get_model_listing_urlpath :: "pyclass \<Rightarrow> string \<Rightarrow> exn + string option"
  cls_get_object_detail_urlpath :: "pyclass \<Rightarrow> 'pk \<Rightarrow> string \<Rightarrow> exn + string option"

subsection \<open>The router\<close>

text \<open>
  \<^verbatim>\<open>_endpoints\<close> is a Python dict that is iterated, so its insertion order matters:
  it is an association list with distinct keys, where storing under an existing key
  replaces the value in place and storing under a new key appends.
  \<^verbatim>\<open>_model2endpoint\<close> is only looked up: it is a map.
\<close>

record ('pk, 'a) router =
  url_namespace :: string
  endpoints :: "(string, ('pk, 'a) endpoint_class) alist"
  model2endpoint :: "pyclass \<rightharpoonup> string \<times> ('pk, 'a) endpoint_class"

definition init :: "string \<Rightarrow> ('pk, 'a) router" where
  "init ns = \<lparr>url_namespace = ns, endpoints = DAList.empty, model2endpoint = Map.empty\<rparr>"

text \<open>Python's \<^verbatim>\<open>d.setdefault(k, v)\<close>, as it leaves the dict.\<close>

definition setdefault :: "('k \<rightharpoonup> 'v) \<Rightarrow> 'k \<Rightarrow> 'v \<Rightarrow> ('k \<rightharpoonup> 'v)" where
  "setdefault d k v = (if k \<in> dom d then d else d(k \<mapsto> v))"

definition register_endpoint ::
    "string \<Rightarrow> ('pk, 'a) endpoint_class \<Rightarrow> bool \<Rightarrow> ('pk, 'a) router \<Rightarrow> ('pk, 'a) router" where
  "register_endpoint name cls as_default_view r =
     (let r1 = r\<lparr>endpoints := DAList.update name cls (endpoints r)\<rparr> in
      if as_default_view \<and> model cls \<noteq> None
      then r1\<lparr>model2endpoint := setdefault (model2endpoint r1) (the (model cls)) (name, cls)\<rparr>
      else r1)"

text \<open>
  The loop of \<^verbatim>\<open>get_model_endpoint\<close> over \<^verbatim>\<open>model.__mro__\<close>. Falling off the end of
  the loop is Python's implicit \<^verbatim>\<open>return None\<close>.
\<close>

fun mro_loop :: "('k \<rightharpoonup> 'v) \<Rightarrow> 'k list \<Rightarrow> 'v option" where
  "mro_loop d [] = None"
| "mro_loop d (c # cs) = (if c \<in> dom d then Some (the (d c)) else mro_loop d cs)"

definition get_model_endpoint ::
    "pyclass \<Rightarrow> bool \<Rightarrow> ('pk, 'a) router
      \<Rightarrow> (string \<times> ('pk, 'a) endpoint_class) option \<times> ('pk, 'a) router" where
  "get_model_endpoint mdl specific r = (mro_loop (model2endpoint r) (mro mdl), r)"

text \<open>
  The two reverse lookups. \<^verbatim>\<open>if endpoint:\<close> tests a pair or \<^verbatim>\<open>None\<close>; a pair is
  always true. Without an endpoint the method falls off its end and returns \<^verbatim>\<open>None\<close>.
  An exception of the endpoint's builder propagates.
\<close>

definition get_model_listing_urlpath ::
    "pyclass \<Rightarrow> ('pk, 'a) router \<Rightarrow> (exn + string option) \<times> ('pk, 'a) router" where
  "get_model_listing_urlpath mdl r =
     (let (endpoint, r1) = get_model_endpoint mdl False r in
      case endpoint of
        None \<Rightarrow> (Inr None, r1)
      | Some ep \<Rightarrow>
          (let endpoint_name = fst ep; endpoint_class = snd ep;
               qualified = url_namespace r1 @ '':'' @ endpoint_name
           in (cls_get_model_listing_urlpath endpoint_class mdl qualified, r1)))"

definition get_object_detail_urlpath ::
    "pyclass \<Rightarrow> 'pk \<Rightarrow> ('pk, 'a) router \<Rightarrow> (exn + string option) \<times> ('pk, 'a) router" where
  "get_object_detail_urlpath mdl pk r =
     (let (endpoint, r1) = get_model_endpoint mdl False r in
      case endpoint of
        None \<Rightarrow> (Inr None, r1)
      | Some ep \<Rightarrow>
          (let endpoint_name = fst ep; endpoint_class = snd ep;
               qualified = url_namespace r1 @ '':'' @ endpoint_name
           in (cls_get_object_detail_urlpath endpoint_class mdl pk qualified, r1)))"

text \<open>
  \<^verbatim>\<open>wrap_view\<close>: the wrapped view sets the attribute on the request and then calls the
  view it wraps on that request. The further arguments \<^verbatim>\<open>*args, **kwargs\<close> are handed
  on as they are: a view is curried, so its result type \<open>'a\<close> may be a function of them.
  (\<^verbatim>\<open>functools.wraps\<close> copies the name and docstring of the view, which views here
  do not carry.)
\<close>

definition wrap_view :: "ref \<Rightarrow> 'a view \<Rightarrow> 'a view" where
  "wrap_view self func = (\<lambda>request. func (request\<lparr>wagtailapi_router := Some self\<rparr>))"

text \<open>
  Modelled from the spec: \<^verbatim>\<open>decorate_urlpatterns\<close> of \<^verbatim>\<open>wagtail.utils.urlpatterns\<close>,
  which \<^verbatim>\<open>router.py\<close> imports and does not define. The specification says of it that every route fragment produced, including nested ones, is
  wrapped with the decorator: the callback of every pattern is replaced by the decorated
  callback, at every depth of inclusion, and nothing else changes. It updates the patterns
  in place; here it returns them.
\<close>

fun decorate_urlpattern :: "('a view \<Rightarrow> 'a view) \<Rightarrow> 'a urlpattern \<Rightarrow> 'a urlpattern" where
  "decorate_urlpattern decorator (URLPattern rx cb) = URLPattern rx (decorator cb)"
| "decorate_urlpattern decorator (URLResolver rx ps app ns) =
     URLResolver rx (map (decorate_urlpattern decorator) ps) app ns"

definition decorate_urlpatterns ::
    "'a urlpattern list \<Rightarrow> ('a view \<Rightarrow> 'a view) \<Rightarrow> 'a urlpattern list" where
  "decorate_urlpatterns urlpatterns decorator = map (decorate_urlpattern decorator) urlpatterns"

text \<open>
  The loop of \<^verbatim>\<open>get_urlpatterns\<close> over \<^verbatim>\<open>self._endpoints.items()\<close>, appending one
  pattern per item; the regular expression is the f-string \<^verbatim>\<open>^{name}/\<close>, and
  \<open>url_include\<close> stands for Django's \<^verbatim>\<open>include\<close>.
\<close>

fun endpoints_loop ::
    "(string \<times> ('pk, 'a) endpoint_class) list \<Rightarrow> 'a urlpattern list \<Rightarrow> 'a urlpattern list" where
  "endpoints_loop [] urlpatterns = urlpatterns"
| "endpoints_loop ((name, cls) # items) urlpatterns =
     endpoints_loop items
       (urlpatterns @ [re_path (''^'' @ name @ ''/'') (url_include (cls_get_urlpatterns cls, name) name)])"

definition get_urlpatterns ::
    "ref \<Rightarrow> ('pk, 'a) router \<Rightarrow> 'a urlpattern list \<times> ('pk, 'a) router" where
  "get_urlpatterns self r =
     (let urlpatterns = endpoints_loop (DAList.impl_of (endpoints r)) [];
          urlpatterns1 = decorate_urlpatterns urlpatterns (wrap_view self)
      in (urlpatterns1, r))"

definition urls ::
    "ref \<Rightarrow> ('pk, 'a) router \<Rightarrow> ('a urlpattern list \<times> string \<times> string) \<times> ('pk, 'a) router" where
  "urls self r =
     (let (urlpatterns, r1) = get_urlpatterns self r
      in ((urlpatterns, url_namespace r1, url_namespace r1), r1))"

text \<open>
  All the views of a URL configuration, at every depth of inclusion, in order.
\<close>

fun callbacks :: "'a urlpattern \<Rightarrow> 'a view list" where
  "callbacks (URLPattern rx cb) = [cb]"
| "callbacks (URLResolver rx ps app ns) = concat (map callbacks ps)"

subsection \<open>Matching a path against a pattern\<close>

text \<open>
  Django matches a path against the regular expression of a resolver with Python's
  \<^verbatim>\<open>re.search\<close>. The regular expressions covered here are those made of a leading
  \<^verbatim>\<open>^\<close> followed by ordinary characters and \<^verbatim>\<open>.\<close> (any character but a newline);
  with the leading \<^verbatim>\<open>^\<close> the search succeeds only at the start of the path. For a
  regular expression with any other special character \<open>re_search\<close> gives \<open>None\<close>: its
  matching is not described. \<open>re_special\<close> lists the special characters of \<^verbatim>\<open>re\<close>,
  the last being the backslash.
\<close>

definition re_special :: "char list" where
  "re_special = ''.^$*+?{}[]|()'' @ [CHR 0x5C]"

fun match_here :: "string \<Rightarrow> string \<Rightarrow> bool" where
  "match_here [] s = True"
| "match_here (c # cs) [] = False"
| "match_here (c # cs) (x # xs) =
     ((if c = CHR ''.'' then x \<noteq> CHR 0x0A else x = c) \<and> match_here cs xs)"

definition re_search :: "string \<Rightarrow> string \<Rightarrow> bool option" where
  "re_search pattern s =
     (case pattern of
        [] \<Rightarrow> None
      | c # body \<Rightarrow>
          if c = CHR ''^'' \<and> list_all (\<lambda>b. b = CHR ''.'' \<or> b \<notin> set re_special) body
          then Some (match_here body s) else None)"

fun urlpattern_regex :: "'a urlpattern \<Rightarrow> string" where
  "urlpattern_regex (URLPattern rx cb) = rx"
| "urlpattern_regex (URLResolver rx ps app ns) = rx"

definition urlpattern_matches :: "'a urlpattern \<Rightarrow> string \<Rightarrow> bool option" where
  "urlpattern_matches p path = re_search (urlpattern_regex p) path"

text \<open>
  Python's \<^verbatim>\<open>s.startswith(p)\<close>, and the names without a special character of
  \<^verbatim>\<open>re\<close> (identifiers are among them).
\<close>

definition startswith :: "string \<Rightarrow> string \<Rightarrow> bool" where
  "startswith s p = (take (length p) s = p)"

definition re_literal :: "string \<Rightarrow> bool" where
  "re_literal name = list_all (\<lambda>c. c \<notin> set re_special) name"

subsection \<open>An example configuration\<close>

text \<open>
  Three model classes (\<open>BlogPage\<close> derives from \<open>Page\<close>), a view that answers with the
  router reference it finds on the request, and endpoint classes for them. The theorems
  below are instantiated on these.
\<close>

definition Page :: pyclass where
  "Page = PyClass ''Page'' [PyClass ''object'' []]"

definition BlogPage :: pyclass where
  "BlogPage = PyClass ''BlogPage'' [Page, PyClass ''object'' []]"

definition Image :: pyclass where
  "Image = PyClass ''Image'' [PyClass ''object'' []]"

definition seen_router :: "(ref option) view" where
  "seen_router request = wagtailapi_router request"

definition pages_endpoint :: "(nat, ref option) endpoint_class" where
  "pages_endpoint =
     \<lparr>endpoint_cls_name = ''PagesAPIViewSet'', model = Some Page,
      cls_get_urlpatterns = [URLPattern ''^$'' seen_router, URLPattern ''^find/$'' seen_router],
      cls_get_model_listing_urlpath = (\<lambda>m ns. Inr (Some (''reverse '' @ ns @ '':listing''))),
      cls_get_object_detail_urlpath =
        (\<lambda>m pk ns. if pk = 0 then Inr None else Inr (Some (''reverse '' @ ns @ '':detail'')))\<rparr>"

definition other_pages_endpoint :: "(nat, ref option) endpoint_class" where
  "other_pages_endpoint = pages_endpoint\<lparr>endpoint_cls_name := ''OtherPagesAPIViewSet''\<rparr>"

definition blog_endpoint :: "(nat, ref option) endpoint_class" where
  "blog_endpoint =
     pages_endpoint\<lparr>endpoint_cls_name := ''BlogAPIViewSet'', model := Some BlogPage\<rparr>"

definition images_endpoint :: "(nat, ref option) endpoint_class" where
  "images_endpoint =
     \<lparr>endpoint_cls_name = ''ImagesAPIViewSet'', model = Some Image,
      cls_get_urlpatterns = [URLPattern ''^$'' seen_router],
      cls_get_model_listing_urlpath = (\<lambda>m ns. Inr (Some (''reverse '' @ ns @ '':listing''))),
      cls_get_object_detail_urlpath = (\<lambda>m pk ns. Inr (Some (''reverse '' @ ns @ '':detail'')))\<rparr>"

section \<open>Properties\<close>

subsection \<open>Auxiliary facts\<close>

lemma mro_loop_find:
  "mro_loop d cs = (case find (\<lambda>c. c \<in> dom d) cs of None \<Rightarrow> None | Some c \<Rightarrow> d c)"
  by (induction cs) auto

lemma mro_loop_None_iff: "mro_loop d cs = None \<longleftrightarrow> (\<forall>c\<in>set cs. c \<notin> dom d)"
  by (induction cs) auto

lemma mro_loop_skip:
  "\<forall>c\<in>set pre. c \<notin> dom d \<Longrightarrow> mro_loop d (pre @ cs) = mro_loop d cs"
  by (induction pre) auto

lemma mro_loop_cong:
  "\<forall>c\<in>set cs. d c = d' c \<Longrightarrow> mro_loop d cs = mro_loop d' cs"
  by (induction cs) (auto simp: domIff)

text \<open>A class is never among the ancestors of one of its own ancestors.\<close>

lemma size_mro_tail: "c \<in> set (mro_tail d) \<Longrightarrow> size c < size d"
  by (cases d) (auto simp: less_Suc_eq_le dest: size_list_estimation'[where f=size, OF _ order_refl])

lemma not_in_mro_of_ancestor: "b \<in> set (mro_tail d) \<Longrightarrow> d \<notin> set (mro b)"
  using size_mro_tail[of b d] size_mro_tail[of d b] by (auto simp: mro_def)

lemma endpoints_loop_eq:
  "endpoints_loop items acc =
     acc @ map (\<lambda>(name, cls).
                  URLResolver (''^'' @ name @ ''/'') (cls_get_urlpatterns cls) name name) items"
  by (induction items acc rule: endpoints_loop.induct) (auto simp: re_path_def url_include_def)

lemma register_endpoints:
  "endpoints (register_endpoint name cls d r) = DAList.update name cls (endpoints r)"
  by (simp add: register_endpoint_def Let_def)

lemma register_model2endpoint:
  "model2endpoint (register_endpoint name cls d r) =
     (case model cls of
        None \<Rightarrow> model2endpoint r
      | Some M \<Rightarrow> if d \<and> M \<notin> dom (model2endpoint r)
                  then (model2endpoint r)(M \<mapsto> (name, cls)) else model2endpoint r)"
  by (auto simp: register_endpoint_def Let_def setdefault_def split: option.splits)

lemma register_url_namespace:
  "url_namespace (register_endpoint name cls d r) = url_namespace r"
  by (simp add: register_endpoint_def Let_def)

lemma fst_get_model_endpoint:
  "fst (get_model_endpoint mdl specific r) = mro_loop (model2endpoint r) (mro mdl)"
  by (simp add: get_model_endpoint_def)

lemma listing_via_endpoint:
  "fst (get_model_listing_urlpath mdl r) =
     (case fst (get_model_endpoint mdl False r) of
        None \<Rightarrow> Inr None
      | Some ep \<Rightarrow> cls_get_model_listing_urlpath (snd ep) mdl (url_namespace r @ '':'' @ fst ep))"
  by (simp add: get_model_listing_urlpath_def get_model_endpoint_def Let_def split: option.splits)

lemma detail_via_endpoint:
  "fst (get_object_detail_urlpath mdl pk r) =
     (case fst (get_model_endpoint mdl False r) of
        None \<Rightarrow> Inr None
      | Some ep \<Rightarrow> cls_get_object_detail_urlpath (snd ep) mdl pk (url_namespace r @ '':'' @ fst ep))"
  by (simp add: get_object_detail_urlpath_def get_model_endpoint_def Let_def split: option.splits)

lemma fst_get_urlpatterns:
  "fst (get_urlpatterns self r) =
     map (\<lambda>(name, cls).
            URLResolver (''^'' @ name @ ''/'')
              (decorate_urlpatterns (cls_get_urlpatterns cls) (wrap_view self)) name name)
         (DAList.impl_of (endpoints r))"
  by (simp add: get_urlpatterns_def Let_def endpoints_loop_eq decorate_urlpatterns_def
        split_def cong: map_cong)

lemma snd_get_urlpatterns: "snd (get_urlpatterns self r) = r"
  by (simp add: get_urlpatterns_def Let_def)

lemma dom_lookup_impl_of: "dom (DAList.lookup al) = fst ` set (DAList.impl_of al)"
  by (simp add: DAList.lookup.rep_eq dom_map_of_conv_image_fst)

lemma card_dom_lookup: "card (dom (DAList.lookup al)) = length (DAList.impl_of al)"
proof -
  have "card (set (map fst (DAList.impl_of al))) = length (map fst (DAList.impl_of al))"
    by (rule distinct_card) simp
  then show ?thesis
    by (simp add: dom_lookup_impl_of)
qed

lemma impl_of_two_registered:
  "name1 \<noteq> name2 \<Longrightarrow>
   DAList.impl_of (endpoints (register_endpoint name2 c2 d2 (register_endpoint name1 c1 d1 (init ns))))
     = [(name1, c1), (name2, c2)]"
  by (simp add: register_endpoints init_def DAList.update.rep_eq DAList.empty.rep_eq)

lemma callbacks_decorate:
  "callbacks (decorate_urlpattern decorator p) = map decorator (callbacks p)"
  by (induction p rule: callbacks.induct) (simp_all add: map_concat cong: map_cong)

lemma callbacks_decorate_list:
  "concat (map callbacks (decorate_urlpatterns ps decorator))
     = map decorator (concat (map callbacks ps))"
  by (simp add: decorate_urlpatterns_def map_concat callbacks_decorate comp_def)

lemma match_here_literal:
  "list_all (\<lambda>c. c \<noteq> CHR ''.'') lit \<Longrightarrow> match_here lit s = startswith s lit"
proof (induction lit s rule: match_here.induct)
  case (1 s)
  then show ?case by (simp add: startswith_def)
next
  case (2 c cs)
  then show ?case by (simp add: startswith_def)
next
  case (3 c cs x xs)
  then show ?case by (auto simp: startswith_def)
qed

lemma slash_not_special: "CHR ''/'' \<notin> set re_special"
  by (simp add: re_special_def)

lemma dot_special: "CHR ''.'' \<in> set re_special"
  by (simp add: re_special_def)

lemma re_search_literal_name:
  assumes "re_literal name"
  shows "re_search (''^'' @ name @ ''/'') path = Some (startswith path (name @ ''/''))"
proof -
  from assms have ns: "list_all (\<lambda>c. c \<notin> set re_special) (name @ ''/'')"
    by (simp add: re_literal_def slash_not_special)
  then have sup: "list_all (\<lambda>b. b = CHR ''.'' \<or> b \<notin> set re_special) (name @ ''/'')"
    by (simp add: list_all_iff)
  from ns have "list_all (\<lambda>c. c \<noteq> CHR ''.'') (name @ ''/'')"
    using dot_special by (auto simp: list_all_iff)
  then have "match_here (name @ ''/'') path = startswith path (name @ ''/'')"
    by (rule match_here_literal)
  with sup show ?thesis
    by (simp add: re_search_def)
qed

lemma pages_urlpatterns:
  "cls_get_urlpatterns pages_endpoint
     = [URLPattern ''^$'' seen_router, URLPattern ''^find/$'' seen_router]"
  by (simp add: pages_endpoint_def)

lemma images_urlpatterns:
  "cls_get_urlpatterns images_endpoint = [URLPattern ''^$'' seen_router]"
  by (simp add: images_endpoint_def)

lemmas example_defs =
  Page_def BlogPage_def Image_def pages_endpoint_def other_pages_endpoint_def
  blog_endpoint_def images_endpoint_def init_def

subsection \<open>Registration\<close>

text \<open>
  Claim C1. For every router and every call \<^verbatim>\<open>register_endpoint(name, class_, as_default_view)\<close>:
  afterwards the registry maps \<open>name\<close> to \<open>class_\<close>, whatever it held before; the default
  index gains the entry \<open>M \<mapsto> (name, class_)\<close> exactly when \<open>as_default_view\<close> is true, the
  model \<open>M\<close> of \<open>class_\<close> is not \<open>None\<close> and the index has no entry for \<open>M\<close> yet, and is left
  as it was otherwise. In particular, when two endpoint classes with the same model \<open>M\<close>
  are registered as defaults under one name, and \<open>M\<close> had no entry before, the registry
  resolves the name to the second class while \<^verbatim>\<open>get_model_endpoint(M)\<close> returns the first.
\<close>

theorem register_endpoint_effect:
  "DAList.lookup (endpoints (register_endpoint name cls d r)) name = Some cls
   \<and> model2endpoint (register_endpoint name cls d r) =
       (case model cls of
          None \<Rightarrow> model2endpoint r
        | Some M \<Rightarrow> if d \<and> M \<notin> dom (model2endpoint r)
                    then (model2endpoint r)(M \<mapsto> (name, cls)) else model2endpoint r)
   \<and> (model E1 = Some M \<and> model E2 = Some M \<and> M \<notin> dom (model2endpoint r) \<longrightarrow>
        DAList.lookup (endpoints (register_endpoint name E2 True (register_endpoint name E1 True r)))
            name = Some E2
        \<and> fst (get_model_endpoint M specific
                 (register_endpoint name E2 True (register_endpoint name E1 True r)))
            = Some (name, E1))"
proof (intro conjI impI)
  show "DAList.lookup (endpoints (register_endpoint name cls d r)) name = Some cls"
    by (simp add: register_endpoints)
  show "model2endpoint (register_endpoint name cls d r) =
       (case model cls of
          None \<Rightarrow> model2endpoint r
        | Some M \<Rightarrow> if d \<and> M \<notin> dom (model2endpoint r)
                    then (model2endpoint r)(M \<mapsto> (name, cls)) else model2endpoint r)"
    by (rule register_model2endpoint)
next
  assume a: "model E1 = Some M \<and> model E2 = Some M \<and> M \<notin> dom (model2endpoint r)"
  show "DAList.lookup (endpoints (register_endpoint name E2 True (register_endpoint name E1 True r)))
            name = Some E2"
    by (simp add: register_endpoints)
  from a have "model2endpoint (register_endpoint name E2 True (register_endpoint name E1 True r)) M
      = Some (name, E1)"
    by (simp add: register_model2endpoint)
  then show "fst (get_model_endpoint M specific
                 (register_endpoint name E2 True (register_endpoint name E1 True r)))
            = Some (name, E1)"
    by (simp add: fst_get_model_endpoint mro_def domIff)
qed

theorem register_endpoint_effect_witness:
  "model pages_endpoint = Some Page \<and> model other_pages_endpoint = Some Page
   \<and> Page \<notin> dom (model2endpoint (init ''api'' :: (nat, ref option) router))
   \<and> pages_endpoint \<noteq> other_pages_endpoint
   \<and> DAList.lookup
        (endpoints (register_endpoint ''pages'' other_pages_endpoint True
                     (register_endpoint ''pages'' pages_endpoint True (init ''api''))))
        ''pages'' = Some other_pages_endpoint
   \<and> fst (get_model_endpoint Page False
             (register_endpoint ''pages'' other_pages_endpoint True
               (register_endpoint ''pages'' pages_endpoint True (init ''api''))))
        = Some (''pages'', pages_endpoint)"
  using register_endpoint_effect
    [where name = "''pages''" and ?E1.0 = pages_endpoint and ?E2.0 = other_pages_endpoint
       and M = Page and r = "init ''api''" and specific = False]
  by (simp add: example_defs)

text \<open>
  Claim C10. \<^verbatim>\<open>register_endpoint(name, class_, as_default_view)\<close> is confined to its own
  keys: every registry entry under another name is as before, every entry of the default
  index for a model other than the model of \<open>class_\<close> is as before, no name leaves the
  registry, and every entry the default index held is still there with the same value.
  The namespace of the router is untouched as well.
\<close>

theorem register_endpoint_frame:
  "(\<forall>n. n \<noteq> name \<longrightarrow>
        DAList.lookup (endpoints (register_endpoint name cls d r)) n = DAList.lookup (endpoints r) n)
   \<and> (\<forall>m. model cls \<noteq> Some m \<longrightarrow>
        model2endpoint (register_endpoint name cls d r) m = model2endpoint r m)
   \<and> (\<forall>n. n \<in> dom (DAList.lookup (endpoints r)) \<longrightarrow>
        n \<in> dom (DAList.lookup (endpoints (register_endpoint name cls d r))))
   \<and> (\<forall>m e. model2endpoint r m = Some e \<longrightarrow>
        model2endpoint (register_endpoint name cls d r) m = Some e)
   \<and> url_namespace (register_endpoint name cls d r) = url_namespace r"
proof (intro conjI allI impI)
  fix n assume "n \<noteq> name"
  then show "DAList.lookup (endpoints (register_endpoint name cls d r)) n
      = DAList.lookup (endpoints r) n"
    by (simp add: register_endpoints)
next
  fix m assume "model cls \<noteq> Some m"
  then show "model2endpoint (register_endpoint name cls d r) m = model2endpoint r m"
    by (auto simp: register_model2endpoint split: option.splits)
next
  fix n assume "n \<in> dom (DAList.lookup (endpoints r))"
  then show "n \<in> dom (DAList.lookup (endpoints (register_endpoint name cls d r)))"
    by (cases "n = name") (simp_all add: register_endpoints domIff)
next
  fix m e assume old: "model2endpoint r m = Some e"
  then have "m \<in> dom (model2endpoint r)"
    by (rule domI)
  with old show "model2endpoint (register_endpoint name cls d r) m = Some e"
    by (cases "model cls") (auto simp: register_model2endpoint)
next
  show "url_namespace (register_endpoint name cls d r) = url_namespace r"
    by (rule register_url_namespace)
qed

theorem register_endpoint_frame_witness:
  "DAList.lookup (endpoints (register_endpoint ''images'' images_endpoint True
        (register_endpoint ''pages'' pages_endpoint True (init ''api'')))) ''pages''
     = Some pages_endpoint
   \<and> model2endpoint (register_endpoint ''images'' images_endpoint True
        (register_endpoint ''pages'' pages_endpoint True (init ''api''))) Page
     = Some (''pages'', pages_endpoint)
   \<and> ''pages'' \<in> dom (DAList.lookup (endpoints (register_endpoint ''pages'' other_pages_endpoint True
        (register_endpoint ''pages'' pages_endpoint True (init ''api'')))))
   \<and> model2endpoint (register_endpoint ''pages'' other_pages_endpoint True
        (register_endpoint ''pages'' pages_endpoint True (init ''api''))) Page
     = Some (''pages'', pages_endpoint)
   \<and> url_namespace (register_endpoint ''images'' images_endpoint True
        (register_endpoint ''pages'' pages_endpoint True (init ''api''))) = ''api''"
proof -
  let ?r = "register_endpoint ''pages'' pages_endpoint True (init ''api'')
              :: (nat, ref option) router"
  have reg: "DAList.lookup (endpoints ?r) ''pages'' = Some pages_endpoint"
    by (simp add: register_endpoints)
  have idx: "model2endpoint ?r Page = Some (''pages'', pages_endpoint)"
    by (simp add: register_model2endpoint example_defs)
  have ns: "url_namespace ?r = ''api''"
    by (simp add: register_url_namespace init_def)
  have other: "model images_endpoint \<noteq> Some Page"
    by (simp add: example_defs)
  note f1 = register_endpoint_frame
    [where name = "''images''" and cls = images_endpoint and d = True and r = ?r]
  note f2 = register_endpoint_frame
    [where name = "''pages''" and cls = other_pages_endpoint and d = True and r = ?r]
  from f1 have "DAList.lookup (endpoints (register_endpoint ''images'' images_endpoint True ?r))
      ''pages'' = DAList.lookup (endpoints ?r) ''pages''"
    by simp
  moreover from f1 other
  have "model2endpoint (register_endpoint ''images'' images_endpoint True ?r) Page
      = model2endpoint ?r Page"
    by blast
  moreover from f2 reg
  have "''pages'' \<in> dom (DAList.lookup
      (endpoints (register_endpoint ''pages'' other_pages_endpoint True ?r)))"
    by blast
  moreover from f2 idx
  have "model2endpoint (register_endpoint ''pages'' other_pages_endpoint True ?r) Page
      = Some (''pages'', pages_endpoint)"
    by blast
  moreover from f1 have "url_namespace (register_endpoint ''images'' images_endpoint True ?r)
      = url_namespace ?r"
    by blast
  ultimately show ?thesis
    using reg idx ns by simp
qed

subsection \<open>Resolving the endpoint of a model\<close>

text \<open>
  Claim C2. \<^verbatim>\<open>get_model_endpoint(model)\<close> walks \<^verbatim>\<open>model.__mro__\<close>, most derived class
  first, and returns the entry of the default index for the first class of the chain that
  is a key of the index; it returns \<open>None\<close> exactly when no class of the chain is a key.
  So a class \<open>D\<close> that has a registered class \<open>B\<close> among its ancestors, no entry of its own
  and none for the ancestors before \<open>B\<close>, resolves to the entry of \<open>B\<close>; and once an
  endpoint class with model \<open>D\<close> is registered as default, \<open>D\<close> resolves to that one while
  \<open>B\<close> resolves as before.
\<close>

theorem get_model_endpoint_first_ancestor:
  "fst (get_model_endpoint mdl specific r) =
     (case find (\<lambda>c. c \<in> dom (model2endpoint r)) (mro mdl) of
        None \<Rightarrow> None
      | Some c \<Rightarrow> model2endpoint r c)
   \<and> (fst (get_model_endpoint mdl specific r) = None
        \<longleftrightarrow> (\<forall>c\<in>set (mro mdl). c \<notin> dom (model2endpoint r)))
   \<and> (mro_tail D = pre @ B # post \<and> D \<notin> dom (model2endpoint r)
        \<and> (\<forall>c\<in>set pre. c \<notin> dom (model2endpoint r)) \<and> model2endpoint r B = Some e \<longrightarrow>
        fst (get_model_endpoint D specific r) = Some e
        \<and> fst (get_model_endpoint B specific r) = Some e)
   \<and> (B \<in> set (mro_tail D) \<and> model E2 = Some D \<and> D \<notin> dom (model2endpoint r) \<longrightarrow>
        fst (get_model_endpoint D specific (register_endpoint name2 E2 True r)) = Some (name2, E2)
        \<and> fst (get_model_endpoint B specific (register_endpoint name2 E2 True r))
            = fst (get_model_endpoint B specific r))"
proof (intro conjI impI)
  show "fst (get_model_endpoint mdl specific r) =
     (case find (\<lambda>c. c \<in> dom (model2endpoint r)) (mro mdl) of
        None \<Rightarrow> None
      | Some c \<Rightarrow> model2endpoint r c)"
    by (simp add: fst_get_model_endpoint mro_loop_find)
  show "fst (get_model_endpoint mdl specific r) = None
        \<longleftrightarrow> (\<forall>c\<in>set (mro mdl). c \<notin> dom (model2endpoint r))"
    by (simp only: fst_get_model_endpoint mro_loop_None_iff)
next
  assume a: "mro_tail D = pre @ B # post \<and> D \<notin> dom (model2endpoint r)
        \<and> (\<forall>c\<in>set pre. c \<notin> dom (model2endpoint r)) \<and> model2endpoint r B = Some e"
  then have "\<forall>c\<in>set (D # pre). c \<notin> dom (model2endpoint r)"
    by simp
  then have "mro_loop (model2endpoint r) ((D # pre) @ B # post)
      = mro_loop (model2endpoint r) (B # post)"
    by (rule mro_loop_skip)
  with a show "fst (get_model_endpoint D specific r) = Some e"
    by (simp add: fst_get_model_endpoint mro_def domIff)
  from a show "fst (get_model_endpoint B specific r) = Some e"
    by (simp add: fst_get_model_endpoint mro_def domIff)
next
  assume a: "B \<in> set (mro_tail D) \<and> model E2 = Some D \<and> D \<notin> dom (model2endpoint r)"
  then have idx: "model2endpoint (register_endpoint name2 E2 True r)
      = (model2endpoint r)(D \<mapsto> (name2, E2))"
    by (simp add: register_model2endpoint)
  show "fst (get_model_endpoint D specific (register_endpoint name2 E2 True r)) = Some (name2, E2)"
    by (simp add: fst_get_model_endpoint idx mro_def)
  from a have "D \<notin> set (mro B)"
    by (simp add: not_in_mro_of_ancestor)
  then have "\<forall>c\<in>set (mro B). ((model2endpoint r)(D \<mapsto> (name2, E2))) c = model2endpoint r c"
    by auto
  then show "fst (get_model_endpoint B specific (register_endpoint name2 E2 True r))
            = fst (get_model_endpoint B specific r)"
    unfolding fst_get_model_endpoint idx by (rule mro_loop_cong)
qed

theorem get_model_endpoint_first_ancestor_witness:
  "mro_tail BlogPage = [] @ Page # [PyClass ''object'' []]
   \<and> Page \<in> set (mro_tail BlogPage)
   \<and> model blog_endpoint = Some BlogPage
   \<and> BlogPage \<notin> dom (model2endpoint (register_endpoint ''pages'' pages_endpoint True (init ''api'')))
   \<and> fst (get_model_endpoint BlogPage False
            (register_endpoint ''pages'' pages_endpoint True (init ''api'')))
       = Some (''pages'', pages_endpoint)
   \<and> fst (get_model_endpoint BlogPage False
            (register_endpoint ''blog'' blog_endpoint True
              (register_endpoint ''pages'' pages_endpoint True (init ''api''))))
       = Some (''blog'', blog_endpoint)
   \<and> fst (get_model_endpoint Page False
            (register_endpoint ''blog'' blog_endpoint True
              (register_endpoint ''pages'' pages_endpoint True (init ''api''))))
       = Some (''pages'', pages_endpoint)
   \<and> fst (get_model_endpoint Image False
            (register_endpoint ''pages'' pages_endpoint True (init ''api'')))
       = None"
  using get_model_endpoint_first_ancestor
    [where D = BlogPage and B = Page and pre = "[]" and post = "[PyClass ''object'' []]"
       and r = "register_endpoint ''pages'' pages_endpoint True (init ''api'')"
       and e = "(''pages'', pages_endpoint)" and ?E2.0 = blog_endpoint and ?name2.0 = "''blog''"
       and specific = False and mdl = Image]
  by (simp add: example_defs register_model2endpoint mro_def)

text \<open>
  Claim C8. \<^verbatim>\<open>get_model_endpoint\<close> only reads: it leaves the router, and in particular the
  registry and the default index, exactly as they were.
\<close>

theorem get_model_endpoint_pure:
  "snd (get_model_endpoint mdl specific r) = r
   \<and> endpoints (snd (get_model_endpoint mdl specific r)) = endpoints r
   \<and> model2endpoint (snd (get_model_endpoint mdl specific r)) = model2endpoint r"
  by (simp add: get_model_endpoint_def)

theorem get_model_endpoint_pure_witness:
  "snd (get_model_endpoint BlogPage False
          (register_endpoint ''pages'' pages_endpoint True (init ''api'')))
     = register_endpoint ''pages'' pages_endpoint True (init ''api'')"
  using get_model_endpoint_pure
    [where mdl = BlogPage and specific = False
       and r = "register_endpoint ''pages'' pages_endpoint True (init ''api'')"]
  by simp

text \<open>
  Claim C9. The parameter \<^verbatim>\<open>specific\<close> of \<^verbatim>\<open>get_model_endpoint\<close> has no effect: the
  call returns the same with \<^verbatim>\<open>specific=True\<close> and with \<^verbatim>\<open>specific=False\<close>.
\<close>

theorem get_model_endpoint_specific_ignored:
  "get_model_endpoint mdl True r = get_model_endpoint mdl False r"
  by (simp add: get_model_endpoint_def)

theorem get_model_endpoint_specific_ignored_witness:
  "get_model_endpoint BlogPage True (register_endpoint ''pages'' pages_endpoint True (init ''api''))
     = get_model_endpoint BlogPage False
         (register_endpoint ''pages'' pages_endpoint True (init ''api''))"
  using get_model_endpoint_specific_ignored
    [where mdl = BlogPage and r = "register_endpoint ''pages'' pages_endpoint True (init ''api'')"]
  by simp

subsection \<open>Reverse lookup of URL paths\<close>

text \<open>
  Claim C3. When the endpoint of a model resolves to \<open>(name, class_)\<close>,
  \<^verbatim>\<open>get_model_listing_urlpath(model)\<close> returns exactly what the listing builder of
  \<open>class_\<close> returns for the model and the namespace \<^verbatim>\<open>url_namespace + ":" + name\<close> (for
  the namespace \<^verbatim>\<open>api\<close> and the name \<^verbatim>\<open>v2\<close> that is \<^verbatim>\<open>api:v2\<close>), and
  \<^verbatim>\<open>get_object_detail_urlpath(model, pk)\<close> returns exactly what the detail builder returns
  for the model, the key and that namespace. In particular a builder's \<open>None\<close> is the
  router's \<open>None\<close>.
\<close>

theorem urlpath_delegates_to_endpoint:
  assumes "fst (get_model_endpoint mdl False r) = Some (name, cls)"
  shows "fst (get_model_listing_urlpath mdl r)
           = cls_get_model_listing_urlpath cls mdl (url_namespace r @ '':'' @ name)
         \<and> fst (get_object_detail_urlpath mdl pk r)
           = cls_get_object_detail_urlpath cls mdl pk (url_namespace r @ '':'' @ name)
         \<and> (url_namespace r = ''api'' \<and> name = ''v2'' \<longrightarrow>
              fst (get_model_listing_urlpath mdl r) = cls_get_model_listing_urlpath cls mdl ''api:v2''
              \<and> fst (get_object_detail_urlpath mdl pk r)
                  = cls_get_object_detail_urlpath cls mdl pk ''api:v2'')
         \<and> (cls_get_model_listing_urlpath cls mdl (url_namespace r @ '':'' @ name) = Inr None \<longrightarrow>
              fst (get_model_listing_urlpath mdl r) = Inr None)
         \<and> (cls_get_object_detail_urlpath cls mdl pk (url_namespace r @ '':'' @ name) = Inr None \<longrightarrow>
              fst (get_object_detail_urlpath mdl pk r) = Inr None)"
  using assms by (simp add: listing_via_endpoint detail_via_endpoint)

theorem urlpath_delegates_to_endpoint_witness:
  "fst (get_model_endpoint BlogPage False
          (register_endpoint ''v2'' pages_endpoint True (init ''api'')))
     = Some (''v2'', pages_endpoint)
   \<and> fst (get_model_listing_urlpath BlogPage
            (register_endpoint ''v2'' pages_endpoint True (init ''api'')))
       = Inr (Some ''reverse api:v2:listing'')
   \<and> fst (get_object_detail_urlpath BlogPage 5
            (register_endpoint ''v2'' pages_endpoint True (init ''api'')))
       = Inr (Some ''reverse api:v2:detail'')
   \<and> fst (get_object_detail_urlpath BlogPage 0
            (register_endpoint ''v2'' pages_endpoint True (init ''api'')))
       = Inr None"
proof -
  let ?r = "register_endpoint ''v2'' pages_endpoint True (init ''api'')
              :: (nat, ref option) router"
  have h: "fst (get_model_endpoint BlogPage False ?r) = Some (''v2'', pages_endpoint)"
    by (simp add: fst_get_model_endpoint register_model2endpoint mro_def example_defs)
  have ns: "url_namespace ?r = ''api''"
    by (simp add: register_url_namespace init_def)
  have l: "cls_get_model_listing_urlpath pages_endpoint BlogPage ''api:v2''
      = Inr (Some ''reverse api:v2:listing'')"
    by (simp add: pages_endpoint_def)
  have d5: "cls_get_object_detail_urlpath pages_endpoint BlogPage 5 ''api:v2''
      = Inr (Some ''reverse api:v2:detail'')"
    by (simp add: pages_endpoint_def)
  have d0: "cls_get_object_detail_urlpath pages_endpoint BlogPage 0 ''api:v2'' = Inr None"
    by (simp add: pages_endpoint_def)
  show ?thesis
    using h urlpath_delegates_to_endpoint [OF h, of 5] urlpath_delegates_to_endpoint [OF h, of 0]
    by (simp add: ns l d5 d0)
qed

text \<open>
  Claim C4. For a model none of whose classes in \<^verbatim>\<open>__mro__\<close> is a key of the default
  index, \<^verbatim>\<open>get_model_endpoint\<close>, \<^verbatim>\<open>get_model_listing_urlpath\<close> and
  \<^verbatim>\<open>get_object_detail_urlpath\<close> each return \<open>None\<close>: a normal return, not an exception.
\<close>

theorem unregistered_model_absent:
  assumes "\<forall>c\<in>set (mro mdl). c \<notin> dom (model2endpoint r)"
  shows "fst (get_model_endpoint mdl specific r) = None
         \<and> fst (get_model_listing_urlpath mdl r) = Inr None
         \<and> fst (get_object_detail_urlpath mdl pk r) = Inr None"
proof -
  from assms have "fst (get_model_endpoint mdl sp r) = None" for sp
    by (simp only: fst_get_model_endpoint mro_loop_None_iff)
  then show ?thesis
    by (simp add: listing_via_endpoint detail_via_endpoint)
qed

theorem unregistered_model_absent_witness:
  "fst (get_model_endpoint Image False
          (register_endpoint ''pages'' pages_endpoint True (init ''api''))) = None
   \<and> fst (get_model_listing_urlpath Image
            (register_endpoint ''pages'' pages_endpoint True (init ''api''))) = Inr None
   \<and> fst (get_object_detail_urlpath Image (3::nat)
            (register_endpoint ''pages'' pages_endpoint True (init ''api''))) = Inr None"
proof -
  let ?r = "register_endpoint ''pages'' pages_endpoint True (init ''api'')
              :: (nat, ref option) router"
  have h: "\<forall>c\<in>set (mro Image). c \<notin> dom (model2endpoint ?r)"
    by (simp add: register_model2endpoint mro_def example_defs)
  show ?thesis
    using unregistered_model_absent [OF h, of False 3] by simp
qed

subsection \<open>Assembling the URL patterns\<close>

text \<open>
  Claim C5, amended. \<^verbatim>\<open>get_urlpatterns()\<close> returns one top-level pattern per name of
  the registry and no other, in the order of the registry: the resolver whose regular
  expression is \<^verbatim>\<open>^\<close>, the name as it is (not escaped) and \<^verbatim>\<open>/\<close>, and that includes
  the endpoint class's own patterns, with their views wrapped, under the application name
  and the namespace \<open>name\<close>. Where the name has no special character of regular
  expressions, the pattern for it matches a path exactly when the path begins with
  \<^verbatim>\<open>name/\<close>. Registering endpoints as \<^verbatim>\<open>pages\<close> and \<^verbatim>\<open>images\<close> on a new router
  gives exactly the two resolvers for \<^verbatim>\<open>^pages/\<close> and \<^verbatim>\<open>^images/\<close>. (The claim as
  first stated, that the pattern matches the prefix \<^verbatim>\<open>name/\<close> for every name, fails for
  a name with a special character, as the counterexample after the theorem shows.)
\<close>

theorem get_urlpatterns_shape:
  "fst (get_urlpatterns self r) =
     map (\<lambda>(name, cls).
            URLResolver (''^'' @ name @ ''/'')
              (decorate_urlpatterns (cls_get_urlpatterns cls) (wrap_view self)) name name)
         (DAList.impl_of (endpoints r))
   \<and> distinct (map fst (DAList.impl_of (endpoints r)))
   \<and> set (DAList.impl_of (endpoints r))
       = {(name, cls). DAList.lookup (endpoints r) name = Some cls}
   \<and> length (fst (get_urlpatterns self r)) = card (dom (DAList.lookup (endpoints r)))
   \<and> fst (get_urlpatterns self
        (register_endpoint ''images'' c2 d2 (register_endpoint ''pages'' c1 d1 (init ns))))
       = [URLResolver ''^pages/'' (decorate_urlpatterns (cls_get_urlpatterns c1) (wrap_view self))
            ''pages'' ''pages'',
          URLResolver ''^images/'' (decorate_urlpatterns (cls_get_urlpatterns c2) (wrap_view self))
            ''images'' ''images'']
   \<and> (\<forall>i<length (DAList.impl_of (endpoints r)).
         re_literal (fst (DAList.impl_of (endpoints r) ! i)) \<longrightarrow>
         (\<forall>path. urlpattern_matches (fst (get_urlpatterns self r) ! i) path
                   = Some (startswith path (fst (DAList.impl_of (endpoints r) ! i) @ ''/''))))"
proof (intro conjI)
  show "fst (get_urlpatterns self r) =
     map (\<lambda>(name, cls).
            URLResolver (''^'' @ name @ ''/'')
              (decorate_urlpatterns (cls_get_urlpatterns cls) (wrap_view self)) name name)
         (DAList.impl_of (endpoints r))"
    by (rule fst_get_urlpatterns)
  show "distinct (map fst (DAList.impl_of (endpoints r)))"
    by simp
  show "set (DAList.impl_of (endpoints r))
       = {(name, cls). DAList.lookup (endpoints r) name = Some cls}"
    by (auto simp: DAList.lookup.rep_eq)
  show "length (fst (get_urlpatterns self r)) = card (dom (DAList.lookup (endpoints r)))"
    by (simp add: fst_get_urlpatterns card_dom_lookup)
  have "''pages'' \<noteq> ''images''"
    by simp
  then show "fst (get_urlpatterns self
        (register_endpoint ''images'' c2 d2 (register_endpoint ''pages'' c1 d1 (init ns))))
       = [URLResolver ''^pages/'' (decorate_urlpatterns (cls_get_urlpatterns c1) (wrap_view self))
            ''pages'' ''pages'',
          URLResolver ''^images/'' (decorate_urlpatterns (cls_get_urlpatterns c2) (wrap_view self))
            ''images'' ''images'']"
    by (simp add: fst_get_urlpatterns impl_of_two_registered)
  show "\<forall>i<length (DAList.impl_of (endpoints r)).
         re_literal (fst (DAList.impl_of (endpoints r) ! i)) \<longrightarrow>
         (\<forall>path. urlpattern_matches (fst (get_urlpatterns self r) ! i) path
                   = Some (startswith path (fst (DAList.impl_of (endpoints r) ! i) @ ''/'')))"
  proof (intro allI impI)
    fix i path
    assume i: "i < length (DAList.impl_of (endpoints r))"
      and lit: "re_literal (fst (DAList.impl_of (endpoints r) ! i))"
    from i have "urlpattern_regex (fst (get_urlpatterns self r) ! i)
        = ''^'' @ fst (DAList.impl_of (endpoints r) ! i) @ ''/''"
      by (simp add: fst_get_urlpatterns split_def)
    then show "urlpattern_matches (fst (get_urlpatterns self r) ! i) path
        = Some (startswith path (fst (DAList.impl_of (endpoints r) ! i) @ ''/''))"
      using re_search_literal_name [OF lit, of path] by (simp add: urlpattern_matches_def)
  qed
qed

theorem get_urlpatterns_shape_witness:
  "fst (get_urlpatterns 1
         (register_endpoint ''images'' images_endpoint True
           (register_endpoint ''pages'' pages_endpoint True (init ''api''))))
     = [URLResolver ''^pages/''
          [URLPattern ''^$'' (wrap_view 1 seen_router),
           URLPattern ''^find/$'' (wrap_view 1 seen_router)] ''pages'' ''pages'',
        URLResolver ''^images/''
          [URLPattern ''^$'' (wrap_view 1 seen_router)] ''images'' ''images'']
   \<and> re_literal ''pages'' \<and> re_literal ''images''
   \<and> urlpattern_matches
         (fst (get_urlpatterns 1
                (register_endpoint ''images'' images_endpoint True
                  (register_endpoint ''pages'' pages_endpoint True (init ''api'')))) ! 0)
         ''pages/5/'' = Some True
   \<and> urlpattern_matches
         (fst (get_urlpatterns 1
                (register_endpoint ''images'' images_endpoint True
                  (register_endpoint ''pages'' pages_endpoint True (init ''api'')))) ! 1)
         ''pages/5/'' = Some False"
proof -
  let ?r = "register_endpoint ''images'' images_endpoint True
              (register_endpoint ''pages'' pages_endpoint True (init ''api''))
              :: (nat, ref option) router"
  note shape = get_urlpatterns_shape
    [where self = 1 and ?c1.0 = pages_endpoint and ?c2.0 = images_endpoint
       and ?d1.0 = True and ?d2.0 = True and ns = "''api''" and r = "init ''api''"]
  note two = shape [THEN conjunct2, THEN conjunct2, THEN conjunct2, THEN conjunct2,
    THEN conjunct1]
  have pats: "fst (get_urlpatterns 1 ?r)
     = [URLResolver ''^pages/''
          [URLPattern ''^$'' (wrap_view 1 seen_router),
           URLPattern ''^find/$'' (wrap_view 1 seen_router)] ''pages'' ''pages'',
        URLResolver ''^images/''
          [URLPattern ''^$'' (wrap_view 1 seen_router)] ''images'' ''images'']"
    unfolding two by (simp add: pages_urlpatterns images_urlpatterns decorate_urlpatterns_def)
  have items: "DAList.impl_of (endpoints ?r)
      = [(''pages'', pages_endpoint), (''images'', images_endpoint)]"
    by (simp add: impl_of_two_registered)
  have lit: "re_literal ''pages''" "re_literal ''images''"
    by (simp_all add: re_literal_def re_special_def)
  note prefix = get_urlpatterns_shape
    [where self = 1 and r = ?r, THEN conjunct2, THEN conjunct2, THEN conjunct2,
     THEN conjunct2, THEN conjunct2, rule_format]
  have m0: "urlpattern_matches (fst (get_urlpatterns 1 ?r) ! 0) ''pages/5/'' = Some True"
    using prefix [of 0 "''pages/5/''"] lit by (simp add: items startswith_def)
  have m1: "urlpattern_matches (fst (get_urlpatterns 1 ?r) ! 1) ''pages/5/'' = Some False"
    using prefix [of 1 "''pages/5/''"] lit by (simp add: items startswith_def)
  show ?thesis
    using pats lit m0 m1 by (simp only: simp_thms)
qed

text \<open>
  The claim C5 as first stated fails: the name is put into the regular expression as it
  is. For the name \<^verbatim>\<open>v2.0\<close> the only pattern returned has the regular expression
  \<^verbatim>\<open>^v2.0/\<close>, which matches the path \<^verbatim>\<open>v2x0/\<close>, a path that does not begin with
  \<^verbatim>\<open>v2.0/\<close>.
\<close>

theorem get_urlpatterns_prefix_counterexample:
  "fst (get_urlpatterns 1 (register_endpoint ''v2.0'' images_endpoint True (init ''api'')))
     = [URLResolver ''^v2.0/'' [URLPattern ''^$'' (wrap_view 1 seen_router)] ''v2.0'' ''v2.0'']
   \<and> urlpattern_matches
         (URLResolver ''^v2.0/'' [URLPattern ''^$'' (wrap_view 1 seen_router)] ''v2.0'' ''v2.0'')
         ''v2x0/'' = Some True
   \<and> \<not> startswith ''v2x0/'' ''v2.0/''"
proof (intro conjI)
  have items: "DAList.impl_of
      (endpoints (register_endpoint ''v2.0'' images_endpoint True
                   (init ''api'' :: (nat, ref option) router)))
      = [(''v2.0'', images_endpoint)]"
    by (simp add: register_endpoints init_def DAList.update.rep_eq DAList.empty.rep_eq)
  show "fst (get_urlpatterns 1 (register_endpoint ''v2.0'' images_endpoint True (init ''api'')))
     = [URLResolver ''^v2.0/'' [URLPattern ''^$'' (wrap_view 1 seen_router)] ''v2.0'' ''v2.0'']"
    by (simp add: fst_get_urlpatterns items images_urlpatterns decorate_urlpatterns_def)
  show "urlpattern_matches
         (URLResolver ''^v2.0/'' [URLPattern ''^$'' (wrap_view 1 seen_router)] ''v2.0'' ''v2.0'')
         ''v2x0/'' = Some True"
    by (simp add: urlpattern_matches_def re_search_def re_special_def)
  show "\<not> startswith ''v2x0/'' ''v2.0/''"
    by (simp add: startswith_def)
qed

text \<open>
  Claim C6. Every view that \<^verbatim>\<open>get_urlpatterns()\<close> returns, at every depth of inclusion,
  is a view of an endpoint class wrapped by \<^verbatim>\<open>wrap_view\<close> of this router; and a wrapped
  view, called on any request (and any further arguments), calls the view it wraps on
  that request with \<^verbatim>\<open>wagtailapi_router\<close> set to this router, so that what the inner
  view finds in the attribute is always this router.
\<close>

theorem every_view_wrapped:
  "concat (map callbacks (fst (get_urlpatterns self r)))
     = map (wrap_view self)
         (concat (map (\<lambda>(name, cls). concat (map callbacks (cls_get_urlpatterns cls)))
                   (DAList.impl_of (endpoints r))))
   \<and> (\<forall>cb\<in>set (concat (map callbacks (fst (get_urlpatterns self r)))).
         \<exists>func. cb = wrap_view self func)
   \<and> wrap_view self func request = func (request\<lparr>wagtailapi_router := Some self\<rparr>)
   \<and> wrap_view self (\<lambda>req. (wagtailapi_router req, func req)) request
       = (Some self, func (request\<lparr>wagtailapi_router := Some self\<rparr>))
   \<and> wrap_view self func_args request args
       = func_args (request\<lparr>wagtailapi_router := Some self\<rparr>) args"
proof (intro conjI)
  show eq: "concat (map callbacks (fst (get_urlpatterns self r)))
     = map (wrap_view self)
         (concat (map (\<lambda>(name, cls). concat (map callbacks (cls_get_urlpatterns cls)))
                   (DAList.impl_of (endpoints r))))"
    by (simp add: fst_get_urlpatterns map_concat comp_def split_def callbacks_decorate_list
          flip: decorate_urlpatterns_def)
  show "\<forall>cb\<in>set (concat (map callbacks (fst (get_urlpatterns self r)))).
         \<exists>func. cb = wrap_view self func"
    unfolding eq by auto
  show "wrap_view self func request = func (request\<lparr>wagtailapi_router := Some self\<rparr>)"
    by (simp add: wrap_view_def)
  show "wrap_view self (\<lambda>req. (wagtailapi_router req, func req)) request
       = (Some self, func (request\<lparr>wagtailapi_router := Some self\<rparr>))"
    by (simp add: wrap_view_def)
  show "wrap_view self func_args request args
       = func_args (request\<lparr>wagtailapi_router := Some self\<rparr>) args"
    by (simp add: wrap_view_def)
qed

theorem every_view_wrapped_witness:
  "concat (map callbacks (fst (get_urlpatterns 1
       (register_endpoint ''images'' images_endpoint True
         (register_endpoint ''pages'' pages_endpoint True (init ''api''))))))
     = [wrap_view 1 seen_router, wrap_view 1 seen_router, wrap_view 1 seen_router]
   \<and> wrap_view 1 seen_router \<lparr>path_info = ''/api/pages/'', wagtailapi_router = None\<rparr> = Some 1
   \<and> wrap_view 1 seen_router \<lparr>path_info = ''/api/pages/'', wagtailapi_router = Some 2\<rparr> = Some 1"
proof -
  let ?r = "register_endpoint ''images'' images_endpoint True
              (register_endpoint ''pages'' pages_endpoint True (init ''api''))
              :: (nat, ref option) router"
  have items: "DAList.impl_of (endpoints ?r)
      = [(''pages'', pages_endpoint), (''images'', images_endpoint)]"
    by (simp add: impl_of_two_registered)
  have "concat (map callbacks (fst (get_urlpatterns 1 ?r)))
      = [wrap_view 1 seen_router, wrap_view 1 seen_router, wrap_view 1 seen_router]"
    unfolding every_view_wrapped [where self = 1 and r = ?r, THEN conjunct1]
    by (simp add: items pages_urlpatterns images_urlpatterns)
  moreover
  have "wrap_view 1 seen_router \<lparr>path_info = ''/api/pages/'', wagtailapi_router = None\<rparr> = Some 1"
    unfolding every_view_wrapped
      [where self = 1 and func = seen_router
         and request = "\<lparr>path_info = ''/api/pages/'', wagtailapi_router = None\<rparr>",
       THEN conjunct2, THEN conjunct2, THEN conjunct1]
    by (simp add: seen_router_def)
  moreover
  have "wrap_view 1 seen_router \<lparr>path_info = ''/api/pages/'', wagtailapi_router = Some 2\<rparr> = Some 1"
    unfolding every_view_wrapped
      [where self = 1 and func = seen_router
         and request = "\<lparr>path_info = ''/api/pages/'', wagtailapi_router = Some 2\<rparr>",
       THEN conjunct2, THEN conjunct2, THEN conjunct1]
    by (simp add: seen_router_def)
  ultimately show ?thesis
    by simp
qed

text \<open>
  Claim C7. \<^verbatim>\<open>urls\<close> returns the triple of the patterns of \<^verbatim>\<open>get_urlpatterns()\<close>, the
  namespace and the namespace again, and leaves the router as it was; so reading it a
  second time returns an equal triple.
\<close>

theorem urls_triple:
  "urls self r = ((fst (get_urlpatterns self r), url_namespace r, url_namespace r), r)
   \<and> fst (urls self (snd (urls self r))) = fst (urls self r)
   \<and> snd (urls self (snd (urls self r))) = r"
  by (simp add: urls_def split_def snd_get_urlpatterns Let_def)

theorem urls_triple_witness:
  "fst (urls 1 (register_endpoint ''pages'' pages_endpoint True (init ''api'')))
     = ([URLResolver ''^pages/''
           [URLPattern ''^$'' (wrap_view 1 seen_router),
            URLPattern ''^find/$'' (wrap_view 1 seen_router)] ''pages'' ''pages''],
        ''api'', ''api'')
   \<and> fst (urls 1 (snd (urls 1 (register_endpoint ''pages'' pages_endpoint True (init ''api'')))))
     = fst (urls 1 (register_endpoint ''pages'' pages_endpoint True (init ''api'')))"
proof -
  let ?r = "register_endpoint ''pages'' pages_endpoint True (init ''api'')
              :: (nat, ref option) router"
  have items: "DAList.impl_of (endpoints ?r) = [(''pages'', pages_endpoint)]"
    by (simp add: register_endpoints init_def DAList.update.rep_eq DAList.empty.rep_eq)
  have pats: "fst (get_urlpatterns 1 ?r)
      = [URLResolver ''^pages/''
           [URLPattern ''^$'' (wrap_view 1 seen_router),
            URLPattern ''^find/$'' (wrap_view 1 seen_router)] ''pages'' ''pages'']"
    by (simp add: fst_get_urlpatterns items pages_urlpatterns decorate_urlpatterns_def)
  have ns: "url_namespace ?r = ''api''"
    by (simp add: register_url_namespace init_def)
  note t = urls_triple [where self = 1 and r = ?r]
  have "fst (urls 1 ?r) = (fst (get_urlpatterns 1 ?r), url_namespace ?r, url_namespace ?r)"
    unfolding t [THEN conjunct1] by simp
  then show ?thesis
    using t [THEN conjunct2, THEN conjunct1] by (simp only: pats ns simp_thms)
qed

end
